theory Spec2Isabelle
  imports Complex_Main "HOL-Library.Word"
begin

section \<open>Data model of \<^verbatim>\<open>neglnn/layers/layer.py\<close>\<close>

text \<open>
  Python exceptions are values. \<open>NotImplementedError\<close> is what the base methods of
  \<^verbatim>\<open>Layer\<close> raise; \<open>AttributeError n\<close> is what Python raises when the attribute
  \<open>n\<close> of an object is read before it was ever assigned; \<open>Raised msg\<close> stands for any
  exception raised inside a collaborator (a provider, an optimizer method, an overriding
  method of a concrete layer).
\<close>

datatype error = NotImplementedError | AttributeError string | Raised string

text \<open>\<^verbatim>\<open>Shape\<close> is a tuple of Python integers.\<close>

type_synonym shape = "int list"

text \<open>
  \<^verbatim>\<open>Array\<close> (declared in \<^verbatim>\<open>neglnn/utils/types.py\<close>, imported by the layer module): the
  only attribute this code reads is \<^verbatim>\<open>.shape\<close>. Whatever else an array carries (its
  address, its entries) is the extension part of the record.
\<close>

record Array =
  shape :: shape

text \<open>
  Modelled from the spec: \<^verbatim>\<open>Update\<close> of \<^verbatim>\<open>neglnn/optimizers/optimizer.py\<close>, a
  (parameter reference, gradient) pair built as \<^verbatim>\<open>Update(parameter, gradient)\<close>.
\<close>

datatype 'a Update = Update 'a 'a

text \<open>
  \<^verbatim>\<open>@dataclass class BackwardState\<close>: two fields, the second one with
  \<^verbatim>\<open>field(default_factory=tuple)\<close>.
\<close>

record 'a BackwardState =
  input_gradient :: 'a
  parameter_gradients :: "'a list"

text \<open>
  The generated constructor. An argument the caller leaves out is \<open>None\<close>; the default
  factory \<^verbatim>\<open>tuple\<close> is then called with no argument and returns the empty tuple.
\<close>

definition BackwardState_init :: "'a \<Rightarrow> 'a list option \<Rightarrow> 'a BackwardState" where
  "BackwardState_init g pgs =
     \<lparr>input_gradient = g,
      parameter_gradients = (case pgs of None \<Rightarrow> [] | Some t \<Rightarrow> t)\<rparr>"

text \<open>
  A \<^verbatim>\<open>Layer\<close> object is its attribute dictionary. \<open>input_shape\<close> and \<open>output_shape\<close>
  are \<^verbatim>\<open>Optional[Shape]\<close>: their \<open>None\<close> is Python's \<^verbatim>\<open>None\<close>. For \<open>state\<close> and
  \<open>optimizers\<close>, \<open>None\<close> means that the attribute has not been assigned yet, so that
  reading it raises \<open>AttributeError\<close>. The attributes a concrete subclass adds (its
  weights, its cached input) are the extension part of the record.

  Modelled from the spec: the two parent classes \<^verbatim>\<open>Stateful\<close> and \<^verbatim>\<open>Identifiable\<close>
  are not part of the sources at hand. By the spec, every instance obtains an identifier
  at construction (\<open>ident\<close>, handed in by the environment), identity assignment does
  not fail, and the shared state is attached after construction (by \<^verbatim>\<open>on_state\<close>).
\<close>

record ('s, 'o) Layer =
  ident :: nat
  state :: "'s option"
  input_shape :: "shape option"
  output_shape :: "shape option"
  trainable :: bool
  optimizers :: "'o list option"

text \<open>
  \<^verbatim>\<open>Layer.__init__(self, input_shape=None, output_shape=None, trainable=False)\<close>.
  Each argument is \<open>None\<close> when the caller leaves it out and \<open>Some v\<close> when the caller
  passes \<open>v\<close>. The body runs \<^verbatim>\<open>super().__init__()\<close> and then assigns the three
  attributes; it assigns neither \<open>state\<close> nor \<open>optimizers\<close>.
\<close>

definition Layer_init ::
  "nat \<Rightarrow> shape option option \<Rightarrow> shape option option \<Rightarrow> bool option \<Rightarrow> ('s, 'o) Layer" where
  "Layer_init fresh_id input_shape_arg output_shape_arg trainable_arg =
     \<lparr>ident = fresh_id,
      state = None,
      input_shape = (case input_shape_arg of None \<Rightarrow> None | Some v \<Rightarrow> v),
      output_shape = (case output_shape_arg of None \<Rightarrow> None | Some v \<Rightarrow> v),
      trainable = (case trainable_arg of None \<Rightarrow> False | Some v \<Rightarrow> v),
      optimizers = None\<rparr>"

text \<open>Modelled from the spec: \<^verbatim>\<open>Stateful.on_state\<close> stores the reference it is given.\<close>

definition on_state :: "'s \<Rightarrow> ('s, 'o, 'z) Layer_scheme \<Rightarrow> ('s, 'o, 'z) Layer_scheme" where
  "on_state st layer = layer\<lparr>state := Some st\<rparr>"

section \<open>Collaborators\<close>

text \<open>
  Modelled from the spec: the class \<^verbatim>\<open>Optimizer\<close> of
  \<^verbatim>\<open>neglnn/optimizers/optimizer.py\<close> is a collaborator known by its interface only.
  An optimizer is a reference \<open>'o\<close>; what it has accumulated, the contents of the
  arrays and the shared state all live in a heap \<open>'h\<close> that this code never inspects.
  Each method takes the heap and returns it together with the value it returns or the
  exception it raises. The heap after an exception is kept, as Python keeps it.
\<close>

record ('s, 'o, 'a, 'h) optimizer_api =
  opt_on_state :: "'o \<Rightarrow> 's \<Rightarrow> 'h \<Rightarrow> (error + unit) \<times> 'h"
  opt_on_target_shape :: "'o \<Rightarrow> shape \<Rightarrow> 'h \<Rightarrow> (error + unit) \<times> 'h"
  opt_record :: "'o \<Rightarrow> 'a Update \<Rightarrow> 'h \<Rightarrow> (error + unit) \<times> 'h"
  opt_should_optimize :: "'o \<Rightarrow> 'h \<Rightarrow> (error + bool) \<times> 'h"
  opt_optimize :: "'o \<Rightarrow> 'h \<Rightarrow> (error + unit) \<times> 'h"

text \<open>
  The calls made on collaborators, in the order they return: \<open>Provider opt\<close> is a call
  \<^verbatim>\<open>provider()\<close> that returned \<open>opt\<close>, \<open>Should_optimize opt b\<close> a call
  \<^verbatim>\<open>opt.should_optimize()\<close> that returned \<open>b\<close>, and so on.
\<close>

datatype ('s, 'o, 'a) event =
    Provider 'o
  | On_state 'o 's
  | On_target_shape 'o shape
  | Record 'o "'a Update"
  | Should_optimize 'o bool
  | Optimize 'o

text \<open>
  What a method of \<^verbatim>\<open>Layer\<close> runs on: the layer object itself, the heap of the
  collaborators, and the calls made on them so far.
\<close>

record ('s, 'o, 'a, 'h, 'z) machine =
  self :: "('s, 'o, 'z) Layer_scheme"
  heap :: 'h
  trace :: "('s, 'o, 'a) event list"

text \<open>
  One call of a collaborator: the heap is updated; when the call returns, the event
  built from the returned value is appended to the trace; when it raises, the exception
  is the result.
\<close>

definition call ::
  "('h \<Rightarrow> (error + 'r) \<times> 'h) \<Rightarrow> ('r \<Rightarrow> ('s, 'o, 'a) event) \<Rightarrow>
   ('s, 'o, 'a, 'h, 'z) machine \<Rightarrow> (error + 'r) \<times> ('s, 'o, 'a, 'h, 'z) machine" where
  "call f ev m =
     (case f (heap m) of
        (Inl e, h) \<Rightarrow> (Inl e, m\<lparr>heap := h\<rparr>)
      | (Inr r, h) \<Rightarrow> (Inr r, m\<lparr>heap := h, trace := trace m @ [ev r]\<rparr>))"

section \<open>The class \<^verbatim>\<open>Layer\<close> and its subclasses\<close>

text \<open>
  A concrete layer class is the table of the methods it overrides (\<open>None\<close>: not
  overridden, the method of \<^verbatim>\<open>Layer\<close> runs). An overriding method reads the object
  and the heap; \<^verbatim>\<open>on_initializer\<close>, \<^verbatim>\<open>forward\<close> and \<^verbatim>\<open>backward\<close> may assign
  attributes of the object (parameters, a cached input), \<^verbatim>\<open>parameters\<close> is an accessor.
\<close>

record ('self, 'i, 'a, 'h) layer_class =
  on_initializer_override :: "('self \<Rightarrow> 'i \<Rightarrow> 'h \<Rightarrow> (error + unit) \<times> 'self \<times> 'h) option"
  forward_override :: "('self \<Rightarrow> 'a \<Rightarrow> 'h \<Rightarrow> (error + 'a) \<times> 'self \<times> 'h) option"
  backward_override ::
    "('self \<Rightarrow> 'a \<Rightarrow> 'h \<Rightarrow> (error + 'a BackwardState) \<times> 'self \<times> 'h) option"
  parameters_override :: "('self \<Rightarrow> 'h \<Rightarrow> (error + 'a list) \<times> 'h) option"

text \<open>The four methods of \<^verbatim>\<open>Layer\<close> whose body is \<^verbatim>\<open>raise NotImplementedError\<close>.\<close>

definition Layer_on_initializer :: "'i \<Rightarrow> 'm \<Rightarrow> (error + unit) \<times> 'm" where
  "Layer_on_initializer initializer m = (Inl NotImplementedError, m)"

definition Layer_forward :: "'a \<Rightarrow> 'm \<Rightarrow> (error + 'a) \<times> 'm" where
  "Layer_forward input m = (Inl NotImplementedError, m)"

definition Layer_backward :: "'a \<Rightarrow> 'm \<Rightarrow> (error + 'a BackwardState) \<times> 'm" where
  "Layer_backward output_gradient m = (Inl NotImplementedError, m)"

definition Layer_parameters :: "'m \<Rightarrow> (error + 'a list) \<times> 'm" where
  "Layer_parameters m = (Inl NotImplementedError, m)"

text \<open>Method lookup: the override of the object's class when there is one.\<close>

definition run_override ::
  "(('s, 'o, 'z) Layer_scheme \<Rightarrow> 'h \<Rightarrow> (error + 'r) \<times> ('s, 'o, 'z) Layer_scheme \<times> 'h) \<Rightarrow>
   ('s, 'o, 'a, 'h, 'z) machine \<Rightarrow> (error + 'r) \<times> ('s, 'o, 'a, 'h, 'z) machine" where
  "run_override f m =
     (case f (self m) (heap m) of (r, s, h) \<Rightarrow> (r, m\<lparr>self := s, heap := h\<rparr>))"

definition on_initializer ::
  "(('s, 'o, 'z) Layer_scheme, 'i, 'a, 'h) layer_class \<Rightarrow> 'i \<Rightarrow>
   ('s, 'o, 'a, 'h, 'z) machine \<Rightarrow> (error + unit) \<times> ('s, 'o, 'a, 'h, 'z) machine" where
  "on_initializer cls initializer m =
     (case on_initializer_override cls of
        None \<Rightarrow> Layer_on_initializer initializer m
      | Some f \<Rightarrow> run_override (\<lambda>s. f s initializer) m)"

definition forward ::
  "(('s, 'o, 'z) Layer_scheme, 'i, 'a, 'h) layer_class \<Rightarrow> 'a \<Rightarrow>
   ('s, 'o, 'a, 'h, 'z) machine \<Rightarrow> (error + 'a) \<times> ('s, 'o, 'a, 'h, 'z) machine" where
  "forward cls input m =
     (case forward_override cls of
        None \<Rightarrow> Layer_forward input m
      | Some f \<Rightarrow> run_override (\<lambda>s. f s input) m)"

definition backward ::
  "(('s, 'o, 'z) Layer_scheme, 'i, 'a, 'h) layer_class \<Rightarrow> 'a \<Rightarrow>
   ('s, 'o, 'a, 'h, 'z) machine \<Rightarrow> (error + 'a BackwardState) \<times> ('s, 'o, 'a, 'h, 'z) machine" where
  "backward cls output_gradient m =
     (case backward_override cls of
        None \<Rightarrow> Layer_backward output_gradient m
      | Some f \<Rightarrow> run_override (\<lambda>s. f s output_gradient) m)"

definition parameters ::
  "(('s, 'o, 'z) Layer_scheme, 'i, 'a, 'h) layer_class \<Rightarrow>
   ('s, 'o, 'a, 'h, 'z) machine \<Rightarrow> (error + 'a list) \<times> ('s, 'o, 'a, 'h, 'z) machine" where
  "parameters cls m =
     (case parameters_override cls of
        None \<Rightarrow> Layer_parameters m
      | Some f \<Rightarrow> (case f (self m) (heap m) of (r, h) \<Rightarrow> (r, m\<lparr>heap := h\<rparr>)))"

subsection \<open>\<^verbatim>\<open>Layer.on_optimizer\<close>\<close>

text \<open>
  The body of the \<^verbatim>\<open>for\<close> loop, once per parameter: \<^verbatim>\<open>provider()\<close>, then
  \<^verbatim>\<open>optimizer.on_state(self.state)\<close> (reading \<^verbatim>\<open>self.state\<close> first), then
  \<^verbatim>\<open>optimizer.on_target_shape(parameter.shape)\<close>, then
  \<^verbatim>\<open>self.optimizers.append(optimizer)\<close>. Any exception leaves the loop.
\<close>

fun on_optimizer_loop ::
  "('s, 'o, 'x Array_scheme, 'h) optimizer_api \<Rightarrow> ('h \<Rightarrow> (error + 'o) \<times> 'h) \<Rightarrow>
   'x Array_scheme list \<Rightarrow> ('s, 'o, 'x Array_scheme, 'h, 'z) machine \<Rightarrow>
   (error + unit) \<times> ('s, 'o, 'x Array_scheme, 'h, 'z) machine" where
  "on_optimizer_loop api provider [] m = (Inr (), m)"
| "on_optimizer_loop api provider (parameter # rest) m =
     (case call provider Provider m of
        (Inl e, m1) \<Rightarrow> (Inl e, m1)
      | (Inr optimizer, m1) \<Rightarrow>
          (case state (self m1) of
             None \<Rightarrow> (Inl (AttributeError ''state''), m1)
           | Some st \<Rightarrow>
               (case call (opt_on_state api optimizer st) (\<lambda>_. On_state optimizer st) m1 of
                  (Inl e, m2) \<Rightarrow> (Inl e, m2)
                | (Inr _, m2) \<Rightarrow>
                    (case call (opt_on_target_shape api optimizer (shape parameter))
                            (\<lambda>_. On_target_shape optimizer (shape parameter)) m2 of
                       (Inl e, m3) \<Rightarrow> (Inl e, m3)
                     | (Inr _, m3) \<Rightarrow>
                         (case optimizers (self m3) of
                            None \<Rightarrow> (Inl (AttributeError ''optimizers''), m3)
                          | Some os \<Rightarrow>
                              on_optimizer_loop api provider rest
                                (m3\<lparr>self := (self m3)\<lparr>optimizers := Some (os @ [optimizer])\<rparr>\<rparr>))))))"

text \<open>The first statement, \<^verbatim>\<open>self.optimizers = []\<close>.\<close>

definition reset_optimizers :: "('s, 'o, 'a, 'h, 'z) machine \<Rightarrow> ('s, 'o, 'a, 'h, 'z) machine" where
  "reset_optimizers m = m\<lparr>self := (self m)\<lparr>optimizers := Some []\<rparr>\<rparr>"

text \<open>
  The whole method: the list is reset, \<^verbatim>\<open>self.parameters()\<close> is called once, and the
  loop runs over the tuple it returned.
\<close>

definition on_optimizer ::
  "(('s, 'o, 'z) Layer_scheme, 'i, 'x Array_scheme, 'h) layer_class \<Rightarrow>
   ('s, 'o, 'x Array_scheme, 'h) optimizer_api \<Rightarrow> ('h \<Rightarrow> (error + 'o) \<times> 'h) \<Rightarrow>
   ('s, 'o, 'x Array_scheme, 'h, 'z) machine \<Rightarrow>
   (error + unit) \<times> ('s, 'o, 'x Array_scheme, 'h, 'z) machine" where
  "on_optimizer cls api provider m =
     (case parameters cls (reset_optimizers m) of
        (Inl e, m1) \<Rightarrow> (Inl e, m1)
      | (Inr ps, m1) \<Rightarrow> on_optimizer_loop api provider ps m1)"

subsection \<open>\<^verbatim>\<open>Layer.optimize\<close>\<close>

text \<open>
  The body of the \<^verbatim>\<open>for\<close> loop over the zipped triples:
  \<^verbatim>\<open>optimizer.record(Update(parameter, gradient))\<close>, then
  \<^verbatim>\<open>if optimizer.should_optimize(): optimizer.optimize()\<close>.
\<close>

fun optimize_loop ::
  "('s, 'o, 'a, 'h) optimizer_api \<Rightarrow> ('o \<times> 'a \<times> 'a) list \<Rightarrow>
   ('s, 'o, 'a, 'h, 'z) machine \<Rightarrow> (error + unit) \<times> ('s, 'o, 'a, 'h, 'z) machine" where
  "optimize_loop api [] m = (Inr (), m)"
| "optimize_loop api ((optimizer, parameter, gradient) # rest) m =
     (case call (opt_record api optimizer (Update parameter gradient))
             (\<lambda>_. Record optimizer (Update parameter gradient)) m of
        (Inl e, m1) \<Rightarrow> (Inl e, m1)
      | (Inr _, m1) \<Rightarrow>
          (case call (opt_should_optimize api optimizer) (Should_optimize optimizer) m1 of
             (Inl e, m2) \<Rightarrow> (Inl e, m2)
           | (Inr ready, m2) \<Rightarrow>
               if ready then
                 (case call (opt_optimize api optimizer) (\<lambda>_. Optimize optimizer) m2 of
                    (Inl e, m3) \<Rightarrow> (Inl e, m3)
                  | (Inr _, m3) \<Rightarrow> optimize_loop api rest m3)
               else optimize_loop api rest m2))"

text \<open>
  The arguments of \<^verbatim>\<open>zip\<close> are evaluated from left to right: \<^verbatim>\<open>self.optimizers\<close> is
  read before \<^verbatim>\<open>self.parameters()\<close> is called. \<^verbatim>\<open>zip\<close> stops at the shortest of its
  three arguments, as \<open>zip\<close> on lists does.
\<close>

definition optimize ::
  "(('s, 'o, 'z) Layer_scheme, 'i, 'a, 'h) layer_class \<Rightarrow> ('s, 'o, 'a, 'h) optimizer_api \<Rightarrow>
   'a list \<Rightarrow> ('s, 'o, 'a, 'h, 'z) machine \<Rightarrow> (error + unit) \<times> ('s, 'o, 'a, 'h, 'z) machine" where
  "optimize cls api gradients m =
     (case optimizers (self m) of
        None \<Rightarrow> (Inl (AttributeError ''optimizers''), m)
      | Some os \<Rightarrow>
          (case parameters cls m of
             (Inl e, m1) \<Rightarrow> (Inl e, m1)
           | (Inr ps, m1) \<Rightarrow> optimize_loop api (zip os (zip ps gradients)) m1))"

text \<open>The class \<^verbatim>\<open>Layer\<close> itself overrides nothing.\<close>

definition Layer_class :: "('self, 'i, 'a, 'h) layer_class" where
  "Layer_class =
     \<lparr>on_initializer_override = None, forward_override = None,
      backward_override = None, parameters_override = None\<rparr>"

section \<open>What the specification expects\<close>

text \<open>
  The specification of \<^verbatim>\<open>optimize\<close>, in its own words: for each triple, record the update
  on the optimizer, then apply it at once if and only if the optimizer reports readiness.
  \<open>ready_after_record\<close> is the answer of \<^verbatim>\<open>should_optimize()\<close> in the heap that
  \<^verbatim>\<open>record\<close> left, \<open>record_then_apply\<close> is the heap after the triple, and
  \<open>triple_calls\<close> are the calls the triple stands for.
\<close>

definition ready_after_record ::
  "('s, 'o, 'a, 'h) optimizer_api \<Rightarrow> 'o \<times> 'a \<times> 'a \<Rightarrow> 'h \<Rightarrow> bool" where
  "ready_after_record api t h =
     (case t of (opt, p, g) \<Rightarrow>
        fst (opt_should_optimize api opt (snd (opt_record api opt (Update p g) h))) = Inr True)"

definition record_then_apply ::
  "('s, 'o, 'a, 'h) optimizer_api \<Rightarrow> 'o \<times> 'a \<times> 'a \<Rightarrow> 'h \<Rightarrow> 'h" where
  "record_then_apply api t h =
     (case t of (opt, p, g) \<Rightarrow>
        let h2 = snd (opt_should_optimize api opt (snd (opt_record api opt (Update p g) h)))
        in if ready_after_record api t h then snd (opt_optimize api opt h2) else h2)"

definition triple_calls ::
  "('s, 'o, 'a, 'h) optimizer_api \<Rightarrow> 'o \<times> 'a \<times> 'a \<Rightarrow> 'h \<Rightarrow> ('s, 'o, 'a) event list" where
  "triple_calls api t h =
     (case t of (opt, p, g) \<Rightarrow>
        Record opt (Update p g) # Should_optimize opt (ready_after_record api t h) #
        (if ready_after_record api t h then [Optimize opt] else []))"

text \<open>The calls expected for a list of triples, taken in order from a given heap.\<close>

fun expected_optimize_trace ::
  "('s, 'o, 'a, 'h) optimizer_api \<Rightarrow> ('o \<times> 'a \<times> 'a) list \<Rightarrow> 'h \<Rightarrow> ('s, 'o, 'a) event list" where
  "expected_optimize_trace api [] h = []"
| "expected_optimize_trace api (t # ts) h =
     triple_calls api t h @ expected_optimize_trace api ts (record_then_apply api t h)"

text \<open>
  The specification of \<^verbatim>\<open>on_optimizer\<close>: for each parameter in order, a fresh optimizer from
  the provider, the shared state attached to it, then the shape of the parameter bound to it.
\<close>

definition on_optimizer_calls ::
  "'s \<Rightarrow> ('o \<times> 'x Array_scheme) list \<Rightarrow> ('s, 'o, 'a) event list" where
  "on_optimizer_calls st ops =
     concat (map (\<lambda>(opt, p). [Provider opt, On_state opt st, On_target_shape opt (shape p)]) ops)"

text \<open>
  Readings of a trace: the (optimizer, shape) bindings made, the optimizers the provider
  returned, the (optimizer, parameter, gradient) triples recorded, and the optimizer an
  event concerns.
\<close>

fun bound_shapes :: "('s, 'o, 'a) event list \<Rightarrow> ('o \<times> shape) list" where
  "bound_shapes [] = []"
| "bound_shapes (On_target_shape opt sh # tr) = (opt, sh) # bound_shapes tr"
| "bound_shapes (_ # tr) = bound_shapes tr"

fun provided :: "('s, 'o, 'a) event list \<Rightarrow> 'o list" where
  "provided [] = []"
| "provided (Provider opt # tr) = opt # provided tr"
| "provided (_ # tr) = provided tr"

fun recorded :: "('s, 'o, 'a) event list \<Rightarrow> ('o \<times> 'a \<times> 'a) list" where
  "recorded [] = []"
| "recorded (Record opt (Update p g) # tr) = (opt, p, g) # recorded tr"
| "recorded (_ # tr) = recorded tr"


text \<open>A collaborator that returns from every heap, and an interface made of such methods.\<close>

definition never_raises :: "('h \<Rightarrow> (error + 'r) \<times> 'h) \<Rightarrow> bool" where
  "never_raises f \<longleftrightarrow> (\<forall>h. \<exists>r. fst (f h) = Inr r)"

definition optimizers_never_raise :: "('s, 'o, 'a, 'h) optimizer_api \<Rightarrow> bool" where
  "optimizers_never_raise api \<longleftrightarrow>
     (\<forall>opt st. never_raises (opt_on_state api opt st)) \<and>
     (\<forall>opt sh. never_raises (opt_on_target_shape api opt sh)) \<and>
     (\<forall>opt u. never_raises (opt_record api opt u)) \<and>
     (\<forall>opt. never_raises (opt_should_optimize api opt)) \<and>
     (\<forall>opt. never_raises (opt_optimize api opt))"


section \<open>A concrete setting\<close>

text \<open>
  A layer class that overrides \<^verbatim>\<open>parameters\<close> to return the arrays the object holds; a
  trainable layer of that class with a (2, 2) and a (2) parameter and the shared state 7
  attached; a provider that numbers the optimizers it hands out; and optimizers that count
  the pending updates in the heap, are ready once two are pending, and clear the count when
  they apply them.
\<close>

definition two_parameter_class ::
  "((nat, nat, Array list) Layer_scheme, unit, Array, nat \<times> nat) layer_class" where
  "two_parameter_class =
     \<lparr>on_initializer_override = None, forward_override = None, backward_override = None,
      parameters_override = Some (\<lambda>layer h. (Inr (Layer.more layer), h))\<rparr>"

definition two_parameter_layer :: "(nat, nat, Array list) Layer_scheme" where
  "two_parameter_layer =
     Layer.extend (on_state 7 (Layer_init 0 None None (Some True)))
       [\<lparr>shape = [2, 2]\<rparr>, \<lparr>shape = [2]\<rparr>]"

definition counting_provider :: "nat \<times> nat \<Rightarrow> (error + nat) \<times> (nat \<times> nat)" where
  "counting_provider h = (Inr (fst h), (fst h + 1, snd h))"

definition batch_api :: "(nat, nat, Array, nat \<times> nat) optimizer_api" where
  "batch_api =
     \<lparr>opt_on_state = (\<lambda>opt st h. (Inr (), h)),
      opt_on_target_shape = (\<lambda>opt sh h. (Inr (), h)),
      opt_record = (\<lambda>opt u h. (Inr (), (fst h, snd h + 1))),
      opt_should_optimize = (\<lambda>opt h. (Inr (2 \<le> snd h), h)),
      opt_optimize = (\<lambda>opt h. (Inr (), (fst h, 0)))\<rparr>"

text \<open>
  The layer before \<^verbatim>\<open>on_optimizer\<close> and after it, and a layer of the base class fresh
  from its constructor.
\<close>

definition fresh_machine :: "(nat, nat, Array, nat \<times> nat, Array list) machine" where
  "fresh_machine = \<lparr>self = two_parameter_layer, heap = (0, 0), trace = []\<rparr>"

definition attached_machine :: "(nat, nat, Array, nat \<times> nat, Array list) machine" where
  "attached_machine =
     \<lparr>self = two_parameter_layer\<lparr>optimizers := Some [0, 1]\<rparr>, heap = (2, 0),
      trace = [Provider 0, On_state 0 7, On_target_shape 0 [2, 2],
               Provider 1, On_state 1 7, On_target_shape 1 [2]]\<rparr>"

definition base_machine :: "(nat, nat, Array, nat \<times> nat, unit) machine" where
  "base_machine = \<lparr>self = Layer_init 0 None None None, heap = (0, 0), trace = []\<rparr>"

definition base_class :: "((nat, nat) Layer, unit, Array, nat \<times> nat) layer_class" where
  "base_class = Layer_class"

section \<open>The fan-in initializer, \<^verbatim>\<open>neglnn/initializers/xavier.py\<close>\<close>


















section \<open>Construction\<close>

text \<open>
  C9. For every input gradient array \<open>g\<close>, \<^verbatim>\<open>BackwardState(g)\<close> built without
  \<^verbatim>\<open>parameter_gradients\<close> has \<open>input_gradient\<close> exactly \<open>g\<close> and the empty tuple as
  \<open>parameter_gradients\<close>.
\<close>

theorem BackwardState_default:
  "input_gradient (BackwardState_init g None) = g \<and>
   parameter_gradients (BackwardState_init g None) = []"
  by (simp add: BackwardState_init_def)

text \<open>
  C10. A \<^verbatim>\<open>Layer\<close> built with no arguments has \<open>trainable = False\<close>,
  \<open>input_shape = None\<close> and \<open>output_shape = None\<close>; an argument that is supplied is
  stored as it is, whatever the other arguments are.
\<close>

theorem Layer_init_attributes:
  "trainable (Layer_init i None None None) = False \<and>
   input_shape (Layer_init i None None None) = None \<and>
   output_shape (Layer_init i None None None) = None \<and>
   input_shape (Layer_init i (Some a) ob ot) = a \<and>
   output_shape (Layer_init i oa (Some b) ot) = b \<and>
   trainable (Layer_init i oa ob (Some t)) = t"
  by (simp add: Layer_init_def)

section \<open>The two loops\<close>

lemma call_Inr:
  assumes "call f ev m = (Inr r, m')"
  shows "self m' = self m \<and> trace m' = trace m @ [ev r] \<and> f (heap m) = (Inr r, heap m')"
  using assms by (auto simp: call_def split: prod.splits sum.splits)

lemma call_never_raises:
  assumes "never_raises f"
  shows "\<exists>r m'. call f ev m = (Inr r, m')"
proof -
  from assms obtain r where "fst (f (heap m)) = Inr r"
    unfolding never_raises_def by blast
  then show ?thesis
    by (cases "f (heap m)") (simp add: call_def)
qed

lemma call_never_raises_unit:
  fixes f :: "'h \<Rightarrow> (error + unit) \<times> 'h"
  assumes "never_raises f"
  shows "\<exists>m'. call f ev m = (Inr (), m')"
  using call_never_raises [OF assms, of ev m] by simp

lemma parameters_frame:
  assumes "parameters cls m = (r, m')"
  shows "self m' = self m \<and> trace m' = trace m"
  using assms
  by (auto simp: parameters_def Layer_parameters_def split: option.splits prod.splits)

lemma optimize_loop_trace:
  "optimize_loop api ts m = (Inr (), m') \<Longrightarrow>
   self m' = self m \<and> trace m' = trace m @ expected_optimize_trace api ts (heap m) \<and>
   heap m' = fold (record_then_apply api) ts (heap m)"
proof (induction ts arbitrary: m)
  case Nil
  then show ?case by simp
next
  case (Cons t ts)
  obtain opt p g where t: "t = (opt, p, g)" by (cases t) auto
  from Cons.prems obtain m1 where
    c1: "call (opt_record api opt (Update p g)) (\<lambda>_. Record opt (Update p g)) m = (Inr (), m1)"
    by (auto simp: t split: prod.splits sum.splits)
  from Cons.prems c1 obtain ready m2 where
    c2: "call (opt_should_optimize api opt) (Should_optimize opt) m1 = (Inr ready, m2)"
    by (auto simp: t split: prod.splits sum.splits)
  note f1 = call_Inr [OF c1] and f2 = call_Inr [OF c2]
  from f1 f2 have rdy: "ready_after_record api t (heap m) = ready"
    by (simp add: ready_after_record_def t)
  show ?case
  proof (cases ready)
    case True
    from Cons.prems c1 c2 True obtain m3 where
      c3: "call (opt_optimize api opt) (\<lambda>_. Optimize opt) m2 = (Inr (), m3)"
      and rest: "optimize_loop api ts m3 = (Inr (), m')"
      by (auto simp: t split: prod.splits sum.splits)
    note f3 = call_Inr [OF c3]
    from f1 f2 f3 True rdy have h: "record_then_apply api t (heap m) = heap m3"
      by (simp add: record_then_apply_def t)
    from f1 f2 f3 True rdy have tr: "trace m3 = trace m @ triple_calls api t (heap m)"
      by (simp add: triple_calls_def t)
    from Cons.IH [OF rest] f1 f2 f3 h tr show ?thesis
      by simp
  next
    case False
    from Cons.prems c1 c2 False have rest: "optimize_loop api ts m2 = (Inr (), m')"
      by (simp add: t)
    from f1 f2 False rdy have h: "record_then_apply api t (heap m) = heap m2"
      by (simp add: record_then_apply_def t)
    from f1 f2 False rdy have tr: "trace m2 = trace m @ triple_calls api t (heap m)"
      by (simp add: triple_calls_def t)
    from Cons.IH [OF rest] f1 f2 h tr show ?thesis
      by simp
  qed
qed


lemma on_optimizer_loop_trace:
  "on_optimizer_loop api provider ps m = (Inr (), m') \<Longrightarrow>
   state (self m) = Some st \<Longrightarrow> optimizers (self m) = Some os0 \<Longrightarrow>
   \<exists>os. length os = length ps \<and> self m' = (self m)\<lparr>optimizers := Some (os0 @ os)\<rparr> \<and>
        trace m' = trace m @ on_optimizer_calls st (zip os ps)"
proof (induction ps arbitrary: m os0)
  case Nil
  then show ?case by (simp add: on_optimizer_calls_def)
next
  case (Cons p ps)
  from Cons.prems(1) obtain opt m1 where
    c1: "call provider Provider m = (Inr opt, m1)"
    by (auto split: prod.splits sum.splits)
  note f1 = call_Inr [OF c1]
  from f1 Cons.prems(2) have st1: "state (self m1) = Some st" by simp
  from Cons.prems(1) c1 st1 obtain m2 where
    c2: "call (opt_on_state api opt st) (\<lambda>_. On_state opt st) m1 = (Inr (), m2)"
    by (auto split: prod.splits sum.splits)
  note f2 = call_Inr [OF c2]
  from Cons.prems(1) c1 st1 c2 obtain m3 where
    c3: "call (opt_on_target_shape api opt (shape p))
           (\<lambda>_. On_target_shape opt (shape p)) m2 = (Inr (), m3)"
    by (auto split: prod.splits sum.splits)
  note f3 = call_Inr [OF c3]
  from f1 f2 f3 have s3: "self m3 = self m" by simp
  let ?m4 = "m3\<lparr>self := (self m3)\<lparr>optimizers := Some (os0 @ [opt])\<rparr>\<rparr>"
  from Cons.prems c1 st1 c2 c3 s3 have rest:
    "on_optimizer_loop api provider ps ?m4 = (Inr (), m')"
    by simp
  have "state (self ?m4) = Some st" "optimizers (self ?m4) = Some (os0 @ [opt])"
    using s3 Cons.prems(2) by simp_all
  from Cons.IH [OF rest this] obtain os where
    os: "length os = length ps" "self m' = (self ?m4)\<lparr>optimizers := Some ((os0 @ [opt]) @ os)\<rparr>"
      "trace m' = trace ?m4 @ on_optimizer_calls st (zip os ps)"
    by blast
  have "length (opt # os) = length (p # ps)" using os(1) by simp
  moreover have "self m' = (self m)\<lparr>optimizers := Some (os0 @ opt # os)\<rparr>"
    using os(2) s3 by simp
  moreover have "trace m' = trace m @ on_optimizer_calls st (zip (opt # os) (p # ps))"
    using os(3) f1 f2 f3 by (simp add: on_optimizer_calls_def)
  ultimately show ?case by blast
qed

lemma on_optimizer_loop_returns:
  assumes "optimizers_never_raise api" and "never_raises provider"
  shows "state (self m) = Some st \<Longrightarrow> optimizers (self m) = Some os0 \<Longrightarrow>
         \<exists>m'. on_optimizer_loop api provider ps m = (Inr (), m')"
proof (induction ps arbitrary: m os0)
  case Nil
  show ?case by simp
next
  case (Cons p ps)
  obtain opt m1 where c1: "call provider Provider m = (Inr opt, m1)"
    using call_never_raises [OF assms(2)] by blast
  note f1 = call_Inr [OF c1]
  from assms(1) have nr: "never_raises (opt_on_state api opt st)"
    "never_raises (opt_on_target_shape api opt (shape p))"
    by (simp_all add: optimizers_never_raise_def)
  obtain m2 where
    c2: "call (opt_on_state api opt st) (\<lambda>_. On_state opt st) m1 = (Inr (), m2)"
    using call_never_raises_unit [OF nr(1)] by blast
  note f2 = call_Inr [OF c2]
  obtain m3 where
    c3: "call (opt_on_target_shape api opt (shape p))
           (\<lambda>_. On_target_shape opt (shape p)) m2 = (Inr (), m3)"
    using call_never_raises_unit [OF nr(2)] by blast
  note f3 = call_Inr [OF c3]
  from f1 f2 f3 have s3: "self m3 = self m" by simp
  let ?m4 = "m3\<lparr>self := (self m3)\<lparr>optimizers := Some (os0 @ [opt])\<rparr>\<rparr>"
  have "state (self ?m4) = Some st" "optimizers (self ?m4) = Some (os0 @ [opt])"
    using s3 Cons.prems(1) by simp_all
  from Cons.IH [OF this] obtain m' where
    "on_optimizer_loop api provider ps ?m4 = (Inr (), m')" by blast
  with c1 c2 c3 f1 s3 Cons.prems show ?case by simp
qed

lemma bound_shapes_append: "bound_shapes (xs @ ys) = bound_shapes xs @ bound_shapes ys"
  by (induction xs rule: bound_shapes.induct) simp_all

lemma provided_append: "provided (xs @ ys) = provided xs @ provided ys"
  by (induction xs rule: provided.induct) simp_all

lemma recorded_append: "recorded (xs @ ys) = recorded xs @ recorded ys"
  by (induction xs rule: recorded.induct) simp_all

lemma bound_shapes_on_optimizer_calls:
  "length os = length ps \<Longrightarrow>
   bound_shapes (on_optimizer_calls st (zip os ps)) = zip os (map shape ps)"
  by (induction os ps rule: list_induct2) (simp_all add: on_optimizer_calls_def)

lemma provided_on_optimizer_calls:
  "length os = length ps \<Longrightarrow> provided (on_optimizer_calls st (zip os ps)) = os"
  by (induction os ps rule: list_induct2) (simp_all add: on_optimizer_calls_def)

lemma recorded_expected_optimize_trace:
  "recorded (expected_optimize_trace api ts h) = ts"
  by (induction ts arbitrary: h) (auto simp: triple_calls_def recorded_append)




lemmas demo_defs = two_parameter_class_def two_parameter_layer_def counting_provider_def
  batch_api_def fresh_machine_def attached_machine_def Layer.extend_def on_state_def
  Layer_init_def on_optimizer_def parameters_def reset_optimizers_def call_def optimize_def

lemma fresh_on_optimizer:
  "on_optimizer two_parameter_class batch_api counting_provider fresh_machine =
     (Inr (), attached_machine)"
  by (simp add: demo_defs)

lemma fresh_parameters:
  "parameters two_parameter_class (reset_optimizers fresh_machine) =
     (Inr [\<lparr>shape = [2, 2]\<rparr>, \<lparr>shape = [2]\<rparr>], reset_optimizers fresh_machine)"
  by (simp add: demo_defs)

lemma attached_parameters:
  "parameters two_parameter_class attached_machine =
     (Inr [\<lparr>shape = [2, 2]\<rparr>, \<lparr>shape = [2]\<rparr>], attached_machine)"
  by (simp add: demo_defs)


lemma on_optimizer_loop_needs_state:
  assumes "state (self m) = None"
  shows "fst (on_optimizer_loop api provider (p # ps) m) \<noteq> Inr ()"
proof (cases "call provider Provider m")
  case (Pair r m1)
  show ?thesis
  proof (cases r)
    case (Inl e)
    with Pair show ?thesis by simp
  next
    case (Inr opt)
    with Pair call_Inr [of provider Provider m opt m1] assms show ?thesis by simp
  qed
qed

lemma on_optimizer_list:
  assumes "parameters cls (reset_optimizers m) = (Inr ps, m1)"
    and "on_optimizer cls api provider m = (Inr (), m')"
  shows "\<exists>os. optimizers (self m') = Some os \<and> length os = length ps \<and>
           provided (trace m') = provided (trace m) @ os \<and>
           bound_shapes (trace m') = bound_shapes (trace m) @ zip os (map shape ps)"
proof -
  from assms have loop: "on_optimizer_loop api provider ps m1 = (Inr (), m')"
    by (simp add: on_optimizer_def)
  from parameters_frame [OF assms(1)] have
    s1: "self m1 = (self m)\<lparr>optimizers := Some []\<rparr>" and t1: "trace m1 = trace m"
    by (simp_all add: reset_optimizers_def)
  show ?thesis
  proof (cases ps)
    case Nil
    with loop s1 t1 show ?thesis by simp
  next
    case (Cons p ps')
    with loop on_optimizer_loop_needs_state [of m1 api provider p ps']
    obtain st where "state (self m1) = Some st"
      by (cases "state (self m1)") auto
    moreover from s1 have "optimizers (self m1) = Some []" by simp
    ultimately obtain os where os: "length os = length ps"
      "self m' = (self m1)\<lparr>optimizers := Some ([] @ os)\<rparr>"
      "trace m' = trace m1 @ on_optimizer_calls st (zip os ps)"
      using on_optimizer_loop_trace [OF loop] by blast
    from os t1 show ?thesis
      by (simp add: provided_append bound_shapes_append provided_on_optimizer_calls
          bound_shapes_on_optimizer_calls)
  qed
qed



lemma optimize_run:
  assumes "optimizers (self m) = Some os" and "parameters cls m = (Inr ps, m1)"
    and "optimize cls api gradients m = (Inr (), m')"
  shows "self m' = self m \<and>
         trace m' = trace m @ expected_optimize_trace api (zip os (zip ps gradients)) (heap m1) \<and>
         heap m' = fold (record_then_apply api) (zip os (zip ps gradients)) (heap m1)"
proof -
  from assms have "optimize_loop api (zip os (zip ps gradients)) m1 = (Inr (), m')"
    by (simp add: optimize_def)
  from optimize_loop_trace [OF this] parameters_frame [OF assms(2)] show ?thesis
    by simp
qed



section \<open>The methods a concrete layer must provide\<close>

text \<open>
  C6. For a layer whose class does not override them, each of \<^verbatim>\<open>on_initializer\<close>,
  \<^verbatim>\<open>forward\<close>, \<^verbatim>\<open>backward\<close> and \<^verbatim>\<open>parameters\<close> raises \<open>NotImplementedError\<close> on
  every input and in every state, at once: nothing is returned, no collaborator is
  called, and the layer and the heap are left as they were.
\<close>

theorem base_methods_raise:
  "(on_initializer_override cls = None \<longrightarrow>
      on_initializer cls initializer m = (Inl NotImplementedError, m)) \<and>
   (forward_override cls = None \<longrightarrow> forward cls input m = (Inl NotImplementedError, m)) \<and>
   (backward_override cls = None \<longrightarrow>
      backward cls output_gradient m = (Inl NotImplementedError, m)) \<and>
   (parameters_override cls = None \<longrightarrow> parameters cls m = (Inl NotImplementedError, m))"
  by (simp add: on_initializer_def forward_def backward_def parameters_def
      Layer_on_initializer_def Layer_forward_def Layer_backward_def Layer_parameters_def)

theorem base_methods_raise_witness:
  "on_initializer_override base_class = None \<and> forward_override base_class = None \<and>
   backward_override base_class = None \<and> parameters_override base_class = None \<and>
   on_initializer base_class () base_machine = (Inl NotImplementedError, base_machine) \<and>
   forward base_class \<lparr>shape = [2]\<rparr> base_machine = (Inl NotImplementedError, base_machine) \<and>
   backward base_class \<lparr>shape = [2]\<rparr> base_machine = (Inl NotImplementedError, base_machine) \<and>
   parameters base_class base_machine = (Inl NotImplementedError, base_machine)"
  using base_methods_raise [of base_class "()" base_machine "\<lparr>shape = [2]\<rparr>" "\<lparr>shape = [2]\<rparr>"]
  by (simp add: base_class_def Layer_class_def)

section \<open>Attaching the optimizers\<close>

text \<open>
  C3. When \<^verbatim>\<open>on_optimizer(provider)\<close> runs to its end on a layer with the shared state
  attached, the calls it made are, for each parameter of \<^verbatim>\<open>parameters()\<close> in order: one
  call of \<^verbatim>\<open>provider()\<close>, then \<^verbatim>\<open>on_state\<close> of the optimizer just obtained with the
  layer's shared state, then its \<^verbatim>\<open>on_target_shape\<close> with the shape of that parameter;
  the optimizers are appended to the layer's list in that order, the provider has been
  called once per parameter, and no other attribute of the layer has changed.
\<close>

theorem on_optimizer_call_sequence:
  assumes "parameters cls (reset_optimizers m) = (Inr ps, m1)"
    and "state (self m) = Some st"
    and "on_optimizer cls api provider m = (Inr (), m')"
  shows "\<exists>os. length os = length ps \<and> optimizers (self m') = Some os \<and>
           self m' = (self m)\<lparr>optimizers := Some os\<rparr> \<and>
           trace m' = trace m @ on_optimizer_calls st (zip os ps) \<and>
           length (provided (trace m')) = length (provided (trace m)) + length ps"
proof -
  from assms have loop: "on_optimizer_loop api provider ps m1 = (Inr (), m')"
    by (simp add: on_optimizer_def)
  from parameters_frame [OF assms(1)] have
    s1: "self m1 = (self m)\<lparr>optimizers := Some []\<rparr>" and t1: "trace m1 = trace m"
    by (simp_all add: reset_optimizers_def)
  from s1 assms(2) have "state (self m1) = Some st" "optimizers (self m1) = Some []"
    by simp_all
  from on_optimizer_loop_trace [OF loop this] obtain os where os: "length os = length ps"
    "self m' = (self m1)\<lparr>optimizers := Some ([] @ os)\<rparr>"
    "trace m' = trace m1 @ on_optimizer_calls st (zip os ps)"
    by blast
  from os t1 s1 show ?thesis
    by (auto simp: provided_append provided_on_optimizer_calls)
qed

theorem on_optimizer_call_sequence_witness:
  "parameters two_parameter_class (reset_optimizers fresh_machine) =
     (Inr [\<lparr>shape = [2, 2]\<rparr>, \<lparr>shape = [2]\<rparr>], reset_optimizers fresh_machine) \<and>
   state (self fresh_machine) = Some 7 \<and>
   on_optimizer two_parameter_class batch_api counting_provider fresh_machine =
     (Inr (), attached_machine) \<and>
   optimizers (self attached_machine) = Some [0, 1] \<and>
   trace attached_machine =
     [Provider 0, On_state 0 7, On_target_shape 0 [2, 2],
      Provider 1, On_state 1 7, On_target_shape 1 [2]]"
proof -
  have st: "state (self fresh_machine) = Some 7"
    by (simp add: demo_defs)
  from on_optimizer_call_sequence [OF fresh_parameters st fresh_on_optimizer]
  show ?thesis
    by (simp add: fresh_parameters fresh_on_optimizer st attached_machine_def)
qed

text \<open>
  C1. Right after \<^verbatim>\<open>on_optimizer(provider)\<close> has run to its end, the layer's optimizer
  list is as long as the tuple \<^verbatim>\<open>parameters()\<close> returned, it holds the optimizers the
  provider returned in the order it returned them, and the optimizer at position \<open>i\<close> is
  the one that was bound to the shape of the parameter at position \<open>i\<close>. This holds for
  every layer, trainable or not.
\<close>

theorem on_optimizer_one_optimizer_per_parameter:
  assumes "parameters cls (reset_optimizers m) = (Inr ps, m1)"
    and "on_optimizer cls api provider m = (Inr (), m')"
  shows "\<exists>os. optimizers (self m') = Some os \<and> length os = length ps \<and>
           provided (trace m') = provided (trace m) @ os \<and>
           bound_shapes (trace m') = bound_shapes (trace m) @ zip os (map shape ps)"
  using assms by (rule on_optimizer_list)

theorem on_optimizer_one_optimizer_per_parameter_witness:
  "parameters two_parameter_class (reset_optimizers fresh_machine) =
     (Inr [\<lparr>shape = [2, 2]\<rparr>, \<lparr>shape = [2]\<rparr>], reset_optimizers fresh_machine) \<and>
   on_optimizer two_parameter_class batch_api counting_provider fresh_machine =
     (Inr (), attached_machine) \<and>
   optimizers (self attached_machine) = Some [0, 1] \<and>
   bound_shapes (trace attached_machine) = [(0, [2, 2]), (1, [2])]"
  using on_optimizer_one_optimizer_per_parameter [OF fresh_parameters fresh_on_optimizer]
  by (simp add: fresh_parameters fresh_on_optimizer attached_machine_def)

text \<open>
  C4, as the code has it. A layer fresh from its constructor has no optimizer list at all:
  the attribute \<^verbatim>\<open>optimizers\<close> is unset, and attaching the shared state does not set it.
  The first statement of \<^verbatim>\<open>on_optimizer\<close> creates the list, empty; when \<^verbatim>\<open>on_optimizer\<close>
  has run to its end the list holds one optimizer per parameter.
\<close>

theorem optimizers_unset_until_on_optimizer:
  assumes "parameters cls (reset_optimizers m) = (Inr ps, m1)"
    and "on_optimizer cls api provider m = (Inr (), m')"
  shows "optimizers (Layer_init i a b t) = None \<and>
         optimizers (on_state st (Layer_init i a b t)) = None \<and>
         optimizers (self (reset_optimizers m)) = Some [] \<and>
         (\<exists>os. optimizers (self m') = Some os \<and> length os = length ps)"
proof -
  from on_optimizer_list [OF assms] obtain os where
    "optimizers (self m') = Some os" "length os = length ps" by blast
  then show ?thesis
    by (auto simp: Layer_init_def on_state_def reset_optimizers_def)
qed

theorem optimizers_unset_until_on_optimizer_witness:
  "parameters two_parameter_class (reset_optimizers fresh_machine) =
     (Inr [\<lparr>shape = [2, 2]\<rparr>, \<lparr>shape = [2]\<rparr>], reset_optimizers fresh_machine) \<and>
   on_optimizer two_parameter_class batch_api counting_provider fresh_machine =
     (Inr (), attached_machine) \<and>
   optimizers (self fresh_machine) = None \<and>
   optimizers (self (reset_optimizers fresh_machine)) = Some [] \<and>
   optimizers (self attached_machine) = Some [0, 1]"
  using optimizers_unset_until_on_optimizer [OF fresh_parameters fresh_on_optimizer]
  by (simp add: fresh_parameters fresh_on_optimizer demo_defs)

text \<open>
  C4, as the specification words it, fails: the layer built by \<^verbatim>\<open>Layer()\<close> does not
  hold an empty optimizer list.
\<close>

theorem fresh_layer_has_no_empty_optimizer_list:
  "optimizers (Layer_init 0 None None None :: (nat, nat) Layer) \<noteq> Some []"
  by (simp add: Layer_init_def)

section \<open>Dispatching the gradients\<close>

text \<open>
  C2. On a layer with its optimizers attached, given as many gradients as there are
  parameters, a call of \<^verbatim>\<open>optimize(gradients)\<close> that runs to its end has gone through the
  triples (optimizer, parameter, gradient) in order, all of them, and for each one has
  called \<^verbatim>\<open>record\<close> with that parameter and gradient, then \<^verbatim>\<open>should_optimize()\<close>, then
  \<^verbatim>\<open>optimize()\<close> exactly when \<^verbatim>\<open>should_optimize()\<close> returned true in the heap that
  \<^verbatim>\<open>record\<close> left. The layer itself is unchanged.
\<close>

theorem optimize_records_then_applies_when_ready:
  assumes "optimizers (self m) = Some os" and "parameters cls m = (Inr ps, m1)"
    and "length os = length ps" and "length gradients = length ps"
    and "optimize cls api gradients m = (Inr (), m')"
  shows "trace m' = trace m @ expected_optimize_trace api (zip os (zip ps gradients)) (heap m1) \<and>
         heap m' = fold (record_then_apply api) (zip os (zip ps gradients)) (heap m1) \<and>
         recorded (trace m') = recorded (trace m) @ zip os (zip ps gradients) \<and>
         length (zip os (zip ps gradients)) = length ps \<and>
         self m' = self m"
  using optimize_run [OF assms(1,2,5)] assms(3,4)
  by (simp add: recorded_append recorded_expected_optimize_trace)

theorem optimize_records_then_applies_when_ready_witness:
  "optimizers (self attached_machine) = Some [0, 1] \<and>
   parameters two_parameter_class attached_machine =
     (Inr [\<lparr>shape = [2, 2]\<rparr>, \<lparr>shape = [2]\<rparr>], attached_machine) \<and>
   fst (optimize two_parameter_class batch_api [\<lparr>shape = [2, 2]\<rparr>, \<lparr>shape = [2]\<rparr>]
          attached_machine) = Inr () \<and>
   trace (snd (optimize two_parameter_class batch_api [\<lparr>shape = [2, 2]\<rparr>, \<lparr>shape = [2]\<rparr>]
          attached_machine)) =
     trace attached_machine @
     [Record 0 (Update \<lparr>shape = [2, 2]\<rparr> \<lparr>shape = [2, 2]\<rparr>), Should_optimize 0 False,
      Record 1 (Update \<lparr>shape = [2]\<rparr> \<lparr>shape = [2]\<rparr>), Should_optimize 1 True, Optimize 1]"
proof -
  let ?gs = "[\<lparr>shape = [2, 2]\<rparr>, \<lparr>shape = [2]\<rparr>]"
  let ?r = "optimize two_parameter_class batch_api ?gs attached_machine"
  have os: "optimizers (self attached_machine) = Some [0, 1]"
    by (simp add: demo_defs)
  have run: "?r = (Inr (), snd ?r)"
    by (simp add: demo_defs)
  have len: "length [0::nat, 1] = length ?gs" "length ?gs = length ?gs"
    by simp_all
  from optimize_records_then_applies_when_ready [OF os attached_parameters len run]
  have "trace (snd ?r) = trace attached_machine @
      expected_optimize_trace batch_api (zip [0, 1] (zip ?gs ?gs)) (heap attached_machine)"
    by simp
  moreover have "fst ?r = Inr ()" by (subst run) simp
  ultimately show ?thesis using os attached_parameters
    by (simp add: triple_calls_def ready_after_record_def record_then_apply_def
        batch_api_def attached_machine_def)
qed



text \<open>
  C5. On a layer on which \<^verbatim>\<open>on_optimizer\<close> has never run, so that the attribute
  \<^verbatim>\<open>optimizers\<close> is unset, \<^verbatim>\<open>optimize(gradients)\<close> fails at once with the
  \<open>AttributeError\<close> that names the missing attribute \<^verbatim>\<open>optimizers\<close>: it does not return
  normally, and it fails before \<^verbatim>\<open>parameters()\<close> or any optimizer is called, so that layer,
  heap and trace are as they were.
\<close>

theorem optimize_before_on_optimizer:
  assumes "optimizers (self m) = None"
  shows "optimize cls api gradients m = (Inl (AttributeError ''optimizers''), m)"
  using assms by (simp add: optimize_def)

theorem optimize_before_on_optimizer_witness:
  "optimizers (self fresh_machine) = None \<and>
   optimize two_parameter_class batch_api [\<lparr>shape = [2, 2]\<rparr>, \<lparr>shape = [2]\<rparr>] fresh_machine =
     (Inl (AttributeError ''optimizers''), fresh_machine)"
proof -
  have unset: "optimizers (self fresh_machine) = None"
    by (simp add: fresh_machine_def two_parameter_layer_def Layer.extend_def on_state_def
        Layer_init_def)
  from optimize_before_on_optimizer [OF unset] unset show ?thesis
    by simp
qed

section \<open>The scale of the fan-in initializer\<close>








end
